theory Spec2Isabelle
  imports Main "HOL-Library.AList"
begin

section \<open>Python values used by the contact manager\<close>

text \<open>
  Strings are lists of characters with code points below 256. Exceptions are values: every \<open>raise\<close> of the
  program and of the library calls it makes is a constructor of \<open>exn\<close> carrying the
  message. \<open>KeyboardInterrupt\<close> and \<open>SystemExit\<close> stand for the exceptions that derive from
  \<open>BaseException\<close> only, which an \<open>except Exception\<close> clause does not catch.
\<close>

datatype exn =
    KeyError string
  | ValueError string
  | IndexError string
  | TypeError string
  | OverflowError string
  | KeyboardInterrupt
  | SystemExit

fun is_Exception :: "exn \<Rightarrow> bool" where
  "is_Exception KeyboardInterrupt = False"
| "is_Exception SystemExit = False"
| "is_Exception _ = True"

text \<open>\<open>str(e)\<close>; for a \<open>KeyError\<close> Python renders the \<open>repr\<close> of the key.\<close>

fun exn_str :: "exn \<Rightarrow> string" where
  "exn_str (KeyError m) = [CHR 0x27] @ m @ [CHR 0x27]"
| "exn_str (ValueError m) = m"
| "exn_str (IndexError m) = m"
| "exn_str (TypeError m) = m"
| "exn_str (OverflowError m) = m"
| "exn_str KeyboardInterrupt = []"
| "exn_str SystemExit = []"

subsection \<open>Decimal digits and the two regular expressions\<close>

definition is_digit :: "char \<Rightarrow> bool" where
  "is_digit c = (c \<in> set ''0123456789'')"

definition digit_val :: "char \<Rightarrow> int" where
  "digit_val c = of_char c - 48"

definition digit_char :: "int \<Rightarrow> char" where
  "digit_char n = char_of (48 + n)"

text \<open>
  The patterns of the program are sequences of single-character atoms between \<open>^\<close> and
  \<open>$\<close>: \<open>\d\<close> and an escaped literal. Among the characters modelled \<open>\d\<close> matches the
  digits 0 to 9 and nothing else; the further decimal digits of Unicode that it matches
  have code points of 256 and above. \<open>re.match\<close> anchors at the start; \<open>$\<close> (without
  \<open>re.MULTILINE\<close>) holds at the end of the string and also just before a newline that is
  the last character.
\<close>

datatype atom = Digit | Lit char

fun atom_ok :: "atom \<Rightarrow> char \<Rightarrow> bool" where
  "atom_ok Digit c = is_digit c"
| "atom_ok (Lit l) c = (c = l)"

fun match_atoms :: "atom list \<Rightarrow> string \<Rightarrow> string option" where
  "match_atoms [] s = Some s"
| "match_atoms (a # as) [] = None"
| "match_atoms (a # as) (c # cs) = (if atom_ok a c then match_atoms as cs else None)"

definition at_dollar :: "string \<Rightarrow> bool" where
  "at_dollar rest = (rest = [] \<or> rest = [CHR 0x0A])"

definition re_match :: "atom list \<Rightarrow> string \<Rightarrow> bool" where
  "re_match pat s = (case match_atoms pat s of None \<Rightarrow> False | Some rest \<Rightarrow> at_dollar rest)"

text \<open>\<open>r'^\d{10}$'\<close> and \<open>r'^\d{2}\.\d{2}\.\d{4}$'\<close>.\<close>

definition phone_re :: "atom list" where
  "phone_re = replicate 10 Digit"

definition birthday_re :: "atom list" where
  "birthday_re = [Digit, Digit, Lit CHR ''.'', Digit, Digit, Lit CHR ''.'',
                  Digit, Digit, Digit, Digit]"

section \<open>Field wrappers\<close>

text \<open>
  A \<open>Phone\<close> object has the identity the runtime gave it (\<open>phone_id\<close>) and the \<open>value\<close>
  attribute set by \<open>Field.__init__\<close>. The class defines no \<open>__eq__\<close>, so \<open>==\<close> on two
  \<open>Phone\<close> objects compares identities.
\<close>

record phone =
  phone_id :: nat
  phone_value :: string

definition Phone_init :: "nat \<Rightarrow> string \<Rightarrow> exn + phone" where
  "Phone_init i v =
     (if re_match phone_re v then Inr \<lparr>phone_id = i, phone_value = v\<rparr>
      else Inl (ValueError ''Invalid phone number. The number must consist of 10 digits.''))"

definition phone_str :: "phone \<Rightarrow> string" where
  "phone_str p = phone_value p"

definition py_eq :: "phone \<Rightarrow> phone \<Rightarrow> bool" where
  "py_eq p q = (phone_id p = phone_id q)"


subsection \<open>Dates of the \<open>datetime\<close> library\<close>

text \<open>
  A \<open>datetime.date\<close> is a triple of year, month and day that passed the constructor's
  range check (years 1 to 9999). Ordinals count days from 1 January of year 1, as
  \<open>date.toordinal\<close> does; \<open>weekday\<close> is 0 for Monday. The message texts of exceptions
  raised inside the library are abbreviated.
\<close>

record date =
  year :: int
  month :: int
  day :: int

definition is_leap :: "int \<Rightarrow> bool" where
  "is_leap y = (y mod 4 = 0 \<and> (y mod 100 \<noteq> 0 \<or> y mod 400 = 0))"

definition days_in_month :: "int \<Rightarrow> int \<Rightarrow> int" where
  "days_in_month y m =
     (if m = 2 then (if is_leap y then 29 else 28)
      else if m = 4 \<or> m = 6 \<or> m = 9 \<or> m = 11 then 30 else 31)"

definition valid_ymd :: "int \<Rightarrow> int \<Rightarrow> int \<Rightarrow> bool" where
  "valid_ymd y m d =
     (1 \<le> y \<and> y \<le> 9999 \<and> 1 \<le> m \<and> m \<le> 12 \<and> 1 \<le> d \<and> d \<le> days_in_month y m)"

definition valid_date :: "date \<Rightarrow> bool" where
  "valid_date d = valid_ymd (year d) (month d) (day d)"

definition date_init :: "int \<Rightarrow> int \<Rightarrow> int \<Rightarrow> exn + date" where
  "date_init y m d =
     (if \<not> (1 \<le> y \<and> y \<le> 9999) then Inl (ValueError ''year is out of range'')
      else if \<not> (1 \<le> m \<and> m \<le> 12) then Inl (ValueError ''month must be in 1..12'')
      else if \<not> (1 \<le> d \<and> d \<le> days_in_month y m)
        then Inl (ValueError ''day is out of range for month'')
      else Inr \<lparr>year = y, month = m, day = d\<rparr>)"

definition date_replace_year :: "date \<Rightarrow> int \<Rightarrow> exn + date" where
  "date_replace_year d y = date_init y (month d) (day d)"

definition days_before_year :: "int \<Rightarrow> int" where
  "days_before_year y = (y - 1) * 365 + (y - 1) div 4 - (y - 1) div 100 + (y - 1) div 400"

definition days_before_month :: "int \<Rightarrow> int \<Rightarrow> int" where
  "days_before_month y m = sum_list (map (days_in_month y) [1..m - 1])"

definition toordinal :: "date \<Rightarrow> int" where
  "toordinal d = days_before_year (year d) + days_before_month (year d) (month d) + day d"

definition weekday :: "date \<Rightarrow> int" where
  "weekday d = (toordinal d + 6) mod 7"

definition date_lt :: "date \<Rightarrow> date \<Rightarrow> bool" where
  "date_lt a b =
     (year a < year b \<or> (year a = year b \<and>
        (month a < month b \<or> (month a = month b \<and> day a < day b))))"

definition sub_days :: "date \<Rightarrow> date \<Rightarrow> int" where
  "sub_days a b = toordinal a - toordinal b"

definition next_day :: "date \<Rightarrow> date" where
  "next_day d =
     (if day d < days_in_month (year d) (month d) then d\<lparr>day := day d + 1\<rparr>
      else if month d < 12 then d\<lparr>month := month d + 1, day := 1\<rparr>
      else \<lparr>year = year d + 1, month = 1, day = 1\<rparr>)"

text \<open>
  \<open>d + timedelta(days=n)\<close>: the date \<open>n\<close> days later, or \<open>OverflowError\<close> when that is
  past 31 December 9999 (ordinal 3652059).
\<close>

definition date_add_days :: "date \<Rightarrow> nat \<Rightarrow> exn + date" where
  "date_add_days d n =
     (if toordinal d + int n \<le> 3652059 then Inr ((next_day ^^ n) d)
      else Inl (OverflowError ''date value out of range''))"

text \<open>Decimal rendering of a number that is not negative, \<open>%02d\<close> and \<open>%04d\<close>.\<close>

function dec :: "int \<Rightarrow> string" where
  "dec n = (if n < 10 then [digit_char n] else dec (n div 10) @ [digit_char (n mod 10)])"
  by pat_completeness auto
termination
  by (relation "measure nat") auto

declare dec.simps [simp del]

definition zpad :: "nat \<Rightarrow> int \<Rightarrow> string" where
  "zpad w n = replicate (w - length (dec n)) CHR ''0'' @ dec n"

text \<open>
  \<open>d.strftime("%d.%m.%Y")\<close> and \<open>str(d)\<close>, which is \<open>d.isoformat()\<close>. \<open>strftime\<close> hands
  the format to the C library, whose \<open>%Y\<close> writes the year without padding (year 999 is
  \<open>999\<close>); \<open>isoformat\<close> pads the year to four digits.
\<close>

definition strftime_dmy :: "date \<Rightarrow> string" where
  "strftime_dmy d = zpad 2 (day d) @ ''.'' @ zpad 2 (month d) @ ''.'' @ dec (year d)"

definition date_str :: "date \<Rightarrow> string" where
  "date_str d = zpad 4 (year d) @ ''-'' @ zpad 2 (month d) @ ''-'' @ zpad 2 (day d)"

text \<open>
  \<open>datetime.strptime(s, "%d.%m.%Y").date()\<close>. The library turns the format into the regular
  expression
  \<open>(?P<d>3[0-1]|[1-2]\d|0[1-9]|[1-9]| [1-9])\.(?P<m>1[0-2]|0[1-9]|[1-9])\.(?P<Y>\d\d\d\d)\<close>,
  matches it at the start of the string, rejects a match that leaves input over, and
  builds the date from the three groups. Each group function lists its possible matches
  in the order of the alternatives, so the head of the combined list is the match the
  backtracking engine finds.
\<close>

definition two_digits :: "char \<Rightarrow> char \<Rightarrow> int" where
  "two_digits a b = 10 * digit_val a + digit_val b"

definition is_nonzero_digit :: "char \<Rightarrow> bool" where
  "is_nonzero_digit c = (c \<in> set ''123456789'')"

definition re_lit :: "char \<Rightarrow> string \<Rightarrow> string list" where
  "re_lit c s = (case s of [] \<Rightarrow> [] | x # r \<Rightarrow> if x = c then [r] else [])"

definition re_d :: "string \<Rightarrow> (int \<times> string) list" where
  "re_d s =
     (case s of a # b # r \<Rightarrow>
         (if a = CHR ''3'' \<and> (b = CHR ''0'' \<or> b = CHR ''1'') then [(two_digits a b, r)] else []) @
         (if (a = CHR ''1'' \<or> a = CHR ''2'') \<and> is_digit b then [(two_digits a b, r)] else []) @
         (if a = CHR ''0'' \<and> is_nonzero_digit b then [(two_digits a b, r)] else [])
      | _ \<Rightarrow> []) @
     (case s of a # r \<Rightarrow> if is_nonzero_digit a then [(digit_val a, r)] else [] | _ \<Rightarrow> []) @
     (case s of a # b # r \<Rightarrow>
         if a = CHR '' '' \<and> is_nonzero_digit b then [(digit_val b, r)] else []
      | _ \<Rightarrow> [])"

definition re_m :: "string \<Rightarrow> (int \<times> string) list" where
  "re_m s =
     (case s of a # b # r \<Rightarrow>
         (if a = CHR ''1'' \<and> (b = CHR ''0'' \<or> b = CHR ''1'' \<or> b = CHR ''2'')
          then [(two_digits a b, r)] else []) @
         (if a = CHR ''0'' \<and> is_nonzero_digit b then [(two_digits a b, r)] else [])
      | _ \<Rightarrow> []) @
     (case s of a # r \<Rightarrow> if is_nonzero_digit a then [(digit_val a, r)] else [] | _ \<Rightarrow> [])"

definition re_Y :: "string \<Rightarrow> (int \<times> string) list" where
  "re_Y s =
     (case s of a # b # c # d # r \<Rightarrow>
         if is_digit a \<and> is_digit b \<and> is_digit c \<and> is_digit d
         then [(100 * two_digits a b + two_digits c d, r)] else []
      | _ \<Rightarrow> [])"

definition strptime_matches :: "string \<Rightarrow> (int \<times> int \<times> int \<times> string) list" where
  "strptime_matches s =
     List.bind (re_d s) (\<lambda>(d, r1).
     List.bind (re_lit CHR ''.'' r1) (\<lambda>r2.
     List.bind (re_m r2) (\<lambda>(m, r3).
     List.bind (re_lit CHR ''.'' r3) (\<lambda>r4.
     map (\<lambda>(y, r5). (d, m, y, r5)) (re_Y r4)))))"

definition strptime_dmy :: "string \<Rightarrow> exn + date" where
  "strptime_dmy s =
     (case strptime_matches s of
        [] \<Rightarrow> Inl (ValueError ''time data does not match format'')
      | (d, m, y, rest) # _ \<Rightarrow>
          if rest \<noteq> [] then Inl (ValueError ''unconverted data remains'')
          else date_init y m d)"

text \<open>
  \<open>Birthday.__init__\<close> stores the parsed \<open>date\<close> as the wrapper's value, so a \<open>Birthday\<close>
  object is identified with that date; \<open>Field.__str__\<close> renders it with \<open>str\<close>. The bare
  \<open>except\<close> turns every failure of \<open>strptime\<close> into the second \<open>ValueError\<close>.
\<close>

definition apos :: string where
  "apos = [CHR 0x27]"

definition Birthday_init :: "string \<Rightarrow> exn + date" where
  "Birthday_init v =
     (if re_match birthday_re v then
        (case strptime_dmy v of
           Inl e \<Rightarrow> Inl (ValueError ''Invalid date format. Ensure it exist.'')
         | Inr birthday \<Rightarrow> Inr birthday)
      else Inl (ValueError (''Invalid date format. Use the '' @ apos @ ''DD.MM.YYYY'' @ apos
                            @ '' format.'')))"

definition Birthday_str :: "date \<Rightarrow> string" where
  "Birthday_str b = date_str b"

section \<open>Contact records\<close>

text \<open>
  \<open>Record.name\<close> is whatever the caller passed: the command handlers pass the raw
  string, the class \<open>Name\<close> wraps one; \<open>str\<close> of either is the string. The \<open>birthday\<close>
  attribute is \<open>None\<close>, a raw string (what the \<open>add-birthday\<close> handler stores) or a
  \<open>Birthday\<close> object (what the annotation of \<open>Record.add_birthday\<close> names).
\<close>

datatype pyname = StrName string | NameObj string

fun name_str :: "pyname \<Rightarrow> string" where
  "name_str (StrName s) = s"
| "name_str (NameObj s) = s"

datatype birthday_field = NoBirthday | RawBirthday string | BirthdayObj date

text \<open>Truth value in \<open>if contact.birthday\<close>, and the rendering inside an f-string.\<close>

fun birthday_truthy :: "birthday_field \<Rightarrow> bool" where
  "birthday_truthy NoBirthday = False"
| "birthday_truthy (RawBirthday s) = (s \<noteq> [])"
| "birthday_truthy (BirthdayObj d) = True"

fun birthday_str :: "birthday_field \<Rightarrow> string" where
  "birthday_str NoBirthday = ''None''"
| "birthday_str (RawBirthday s) = s"
| "birthday_str (BirthdayObj d) = Birthday_str d"

record contact =
  name :: pyname
  phones :: "phone list"
  birthday :: birthday_field

definition Record_init :: "pyname \<Rightarrow> contact" where
  "Record_init n = \<lparr>name = n, phones = [], birthday = NoBirthday\<rparr>"

fun join :: "string \<Rightarrow> string list \<Rightarrow> string" where
  "join sep [] = []"
| "join sep [x] = x"
| "join sep (x # y # ys) = x @ sep @ join sep (y # ys)"

definition Record_str :: "contact \<Rightarrow> string" where
  "Record_str r =
     ''Contact name: '' @ name_str (name r) @ '', phones: ''
       @ join ''; '' (map phone_str (phones r))
       @ (if birthday_truthy (birthday r) then '', birthday: '' @ birthday_str (birthday r)
          else [])"

text \<open>Each method returns the record after the call together with the returned text.\<close>

definition add_phone :: "phone \<Rightarrow> contact \<Rightarrow> contact \<times> string" where
  "add_phone p r =
     (r\<lparr>phones := phones r @ [p]\<rparr>,
      ''Phone '' @ phone_str p @ '' added to contact '' @ name_str (name r))"

definition remove_phone :: "phone \<Rightarrow> contact \<Rightarrow> contact \<times> string" where
  "remove_phone p r =
     (r\<lparr>phones := filter (\<lambda>q. py_eq q p) (phones r)\<rparr>,
      ''Phone '' @ phone_str p @ '' deleted'')"

text \<open>
  \<open>edit_phone\<close>: the scan stops at the first entry whose value is \<open>old_phone\<close>; the new
  \<open>Phone\<close> is constructed there (with identity \<open>i\<close>), and its validation error leaves
  the list as it was. The flag tells whether an entry was replaced.
\<close>

fun edit_scan :: "nat \<Rightarrow> string \<Rightarrow> string \<Rightarrow> phone list \<Rightarrow> exn + (phone list \<times> bool)" where
  "edit_scan i old_phone new_phone [] = Inr ([], False)"
| "edit_scan i old_phone new_phone (p # ps) =
     (if phone_value p = old_phone then
        (case Phone_init i new_phone of
           Inl e \<Rightarrow> Inl e
         | Inr q \<Rightarrow> Inr (q # ps, True))
      else
        (case edit_scan i old_phone new_phone ps of
           Inl e \<Rightarrow> Inl e
         | Inr (ps', found) \<Rightarrow> Inr (p # ps', found)))"

definition edit_phone :: "nat \<Rightarrow> string \<Rightarrow> string \<Rightarrow> contact \<Rightarrow> exn + (contact \<times> string)" where
  "edit_phone i old_phone new_phone r =
     (case edit_scan i old_phone new_phone (phones r) of
        Inl e \<Rightarrow> Inl e
      | Inr (ps', found) \<Rightarrow>
          Inr (r\<lparr>phones := ps'\<rparr>,
               if found then ''Phone '' @ old_phone @ '' changed to '' @ new_phone
               else ''Phone '' @ old_phone @ '' not found''))"

text \<open>
  \<open>find_phone\<close> returns a stored object, the not-found text, or falls off the loop and
  returns \<open>None\<close>. \<open>p not in self.phones\<close> compares by identity as well.
\<close>

datatype find_result = FoundPhone phone | NotFoundText string | ReturnedNone

definition py_in :: "phone \<Rightarrow> phone list \<Rightarrow> bool" where
  "py_in p ps = list_ex (\<lambda>q. py_eq q p) ps"

fun find_loop :: "phone list \<Rightarrow> phone \<Rightarrow> phone list \<Rightarrow> find_result" where
  "find_loop all_phones ph [] = ReturnedNone"
| "find_loop all_phones ph (p # ps) =
     (if py_eq p ph then FoundPhone p
      else if \<not> py_in p all_phones then NotFoundText (''Phone '' @ phone_str ph @ '' not found'')
      else find_loop all_phones ph ps)"

definition find_phone :: "phone \<Rightarrow> contact \<Rightarrow> find_result" where
  "find_phone ph r = find_loop (phones r) ph (phones r)"

definition add_birthday :: "birthday_field \<Rightarrow> contact \<Rightarrow> contact \<times> string" where
  "add_birthday b r =
     (r\<lparr>birthday := b\<rparr>,
      name_str (name r) @ apos @ ''s birthday on '' @ birthday_str b @ '' added'')"

section \<open>Address book\<close>

text \<open>
  \<open>AddressBook.data\<close> is a dictionary from strings to records; the association list
  keeps its insertion order. Storing under a present key replaces the value in place,
  storing under a new key appends.
\<close>

type_synonym book = "(string \<times> contact) list"

definition add_record :: "contact \<Rightarrow> book \<Rightarrow> book \<times> string" where
  "add_record r d =
     (AList.update (name_str (name r)) r d,
      ''Contact '' @ name_str (name r) @ '' added to address book'')"

definition find_contact :: "string \<Rightarrow> book \<Rightarrow> contact option" where
  "find_contact n d = map_of d n"

definition delete :: "string \<Rightarrow> book \<Rightarrow> book \<times> string" where
  "delete n d =
     (if n \<in> set (map fst d) then (AList.delete n d, ''Contact '' @ n @ '' deleted'')
      else (d, ''Contact '' @ n @ '' not found''))"

text \<open>
  The body of the loop of \<open>get_upcoming_birthdays\<close> for one contact: an exception, no
  entry, or the entry appended to \<open>congrats_list\<close>. \<open>strptime\<close> raises \<open>TypeError\<close> on an
  argument that is not a string.
\<close>

definition upcoming_entry :: "date \<Rightarrow> contact \<Rightarrow> exn + (pyname \<times> string) option" where
  "upcoming_entry today c =
     (if birthday_truthy (birthday c) then
        (case (case birthday c of
                 RawBirthday s \<Rightarrow> strptime_dmy s
               | _ \<Rightarrow> Inl (TypeError ''strptime() argument 1 must be str, not Birthday'')) of
           Inl e \<Rightarrow> Inl e
         | Inr bd \<Rightarrow>
            (case date_replace_year bd (year today) of
               Inl e \<Rightarrow> Inl e
             | Inr this_year \<Rightarrow>
                (case (if date_lt this_year today then date_replace_year bd (year today + 1)
                       else Inr this_year) of
                   Inl e \<Rightarrow> Inl e
                 | Inr birthday_this_year \<Rightarrow>
                    (let days_until_birthday = sub_days birthday_this_year today in
                     if 0 \<le> days_until_birthday \<and> days_until_birthday \<le> 7 then
                       (case (if weekday birthday_this_year = 5
                                then date_add_days birthday_this_year 2
                              else if weekday birthday_this_year = 6
                                then date_add_days birthday_this_year 1
                              else Inr birthday_this_year) of
                          Inl e \<Rightarrow> Inl e
                        | Inr shifted \<Rightarrow> Inr (Some (name c, strftime_dmy shifted)))
                     else Inr None))))
      else Inr None)"

fun upcoming_loop :: "date \<Rightarrow> contact list \<Rightarrow> (pyname \<times> string) list
    \<Rightarrow> exn + (pyname \<times> string) list" where
  "upcoming_loop today [] congrats_list = Inr congrats_list"
| "upcoming_loop today (c # cs) congrats_list =
     (case upcoming_entry today c of
        Inl e \<Rightarrow> Inl e
      | Inr None \<Rightarrow> upcoming_loop today cs congrats_list
      | Inr (Some entry) \<Rightarrow> upcoming_loop today cs (congrats_list @ [entry]))"

definition get_upcoming_birthdays :: "date \<Rightarrow> book \<Rightarrow> exn + (pyname \<times> string) list option" where
  "get_upcoming_birthdays today d =
     (case upcoming_loop today (map snd d) [] of
        Inl e \<Rightarrow> Inl e
      | Inr congrats_list \<Rightarrow>
          Inr (if length congrats_list > 0 then Some congrats_list else None))"

section \<open>Command handlers\<close>

text \<open>The \<open>colorama\<close> constants are the ANSI escape sequences.\<close>

definition Fore_GREEN :: string where "Fore_GREEN = CHR 0x1B # ''[32m''"
definition Fore_RED :: string where "Fore_RED = CHR 0x1B # ''[31m''"
definition Fore_RESET :: string where "Fore_RESET = CHR 0x1B # ''[39m''"

definition colored_output :: "string \<Rightarrow> string" where
  "colored_output phrase = Fore_GREEN @ phrase @ Fore_RESET"

definition colored_error :: "string \<Rightarrow> string" where
  "colored_error phrase = Fore_RED @ phrase @ Fore_RESET"


text \<open>
  The state a handler works on: the dictionary of the address book and the identity the
  runtime gives to the next \<open>Phone\<close> object. A record found in the book is changed in
  place, so the changed record is stored back under the key it was found at.
\<close>

record world =
  data :: book
  next_id :: nat

text \<open>
  A decorated handler returns a string or an exception object, or lets an exception
  escape. A handler body yields its result or exception together with the state it
  left behind.
\<close>

datatype retval = Str string | ExcObj exn

datatype outcome = Returned retval | Raised exn


definition input_error :: "(world \<Rightarrow> (exn + string) \<times> world) \<Rightarrow> world \<Rightarrow> outcome \<times> world" where
  "input_error func w =
     (case func w of
        (Inr v, w') \<Rightarrow> (Returned (Str v), w')
      | (Inl e, w') \<Rightarrow>
          ((case e of
              KeyError m \<Rightarrow> Returned (ExcObj e)
            | ValueError m \<Rightarrow> Returned (ExcObj e)
            | IndexError m \<Rightarrow> Returned (ExcObj e)
            | _ \<Rightarrow>
                if is_Exception e
                then Returned (Str (''An unexpected error occurred: '' @ exn_str e
                                    @ ''. Please try again.''))
                else Raised e),
           w'))"

definition not_found_use_add :: "string \<Rightarrow> exn" where
  "not_found_use_add n =
     IndexError (colored_error (''Contact '' @ apos @ n @ apos @ '' not found. Use '' @ apos
                                @ ''add'' @ apos @ '' to create it.''))"

definition unpack_error :: "string list \<Rightarrow> nat \<Rightarrow> exn" where
  "unpack_error args n =
     (if length args < n then ValueError ''not enough values to unpack''
      else ValueError ''too many values to unpack'')"

definition add_contact_body :: "string list \<Rightarrow> world \<Rightarrow> (exn + string) \<times> world" where
  "add_contact_body args w =
     (case args of
        [n, phone] \<Rightarrow>
          (let (record, w1, message) =
                 (case find_contact n (data w) of
                    None \<Rightarrow>
                      (let record = Record_init (StrName n) in
                       (record, w\<lparr>data := fst (add_record record (data w))\<rparr>,
                        colored_output (''Contact '' @ name_str (name record)
                                        @ '' added to address book.'')))
                  | Some record \<Rightarrow>
                      (record, w,
                       colored_output (''Contact '' @ name_str (name record) @ '' updated.'')))
           in if phone \<noteq> [] then
                (case Phone_init (next_id w1) phone of
                   Inl e \<Rightarrow> (Inl e, w1)
                 | Inr p \<Rightarrow>
                     (Inr message,
                      w1\<lparr>data := AList.update n (fst (add_phone p record)) (data w1),
                         next_id := Suc (next_id w1)\<rparr>))
              else (Inr message, w1))
      | _ \<Rightarrow> (Inl (unpack_error args 2), w))"

definition change_contact_body :: "string list \<Rightarrow> world \<Rightarrow> (exn + string) \<times> world" where
  "change_contact_body args w =
     (case args of
        [n, old_phone, new_phone] \<Rightarrow>
          (case find_contact n (data w) of
             None \<Rightarrow> (Inl (not_found_use_add n), w)
           | Some record \<Rightarrow>
               (case edit_phone (next_id w) old_phone new_phone record of
                  Inl e \<Rightarrow> (Inl e, w)
                | Inr (record', result) \<Rightarrow>
                    (Inr (colored_output result),
                     w\<lparr>data := AList.update n record' (data w),
                       next_id := Suc (next_id w)\<rparr>)))
      | _ \<Rightarrow> (Inl (unpack_error args 3), w))"

definition show_phone_body :: "string list \<Rightarrow> world \<Rightarrow> (exn + string) \<times> world" where
  "show_phone_body args w =
     (case args of
        [] \<Rightarrow> (Inl (ValueError (colored_error ''No contact name provided.'')), w)
      | n # _ \<Rightarrow>
          (case find_contact n (data w) of
             Some record \<Rightarrow>
               (Inr (colored_output (''Contact '' @ apos @ n @ apos @ '' phones: ''
                                     @ join ''; '' (map phone_str (phones record)))), w)
           | None \<Rightarrow>
               (Inl (IndexError (colored_error (''Contact '' @ apos @ n @ apos
                                                @ '' not found.''))), w)))"

definition show_all_body :: "world \<Rightarrow> (exn + string) \<times> world" where
  "show_all_body w =
     (if data w = [] then (Inl (ValueError (colored_error ''No contacts available.'')), w)
      else (Inr (colored_output (join [CHR 0x0A] (map (\<lambda>(k, record). Record_str record) (data w)))),
            w))"

definition add_birthday_body :: "string list \<Rightarrow> world \<Rightarrow> (exn + string) \<times> world" where
  "add_birthday_body args w =
     (case args of
        [n, b] \<Rightarrow>
          (case find_contact n (data w) of
             None \<Rightarrow> (Inl (not_found_use_add n), w)
           | Some record \<Rightarrow>
               (let (record', result) = add_birthday (RawBirthday b) record
                in (Inr (colored_output result),
                    w\<lparr>data := AList.update n record' (data w)\<rparr>)))
      | _ \<Rightarrow> (Inl (unpack_error args 2), w))"

definition show_birthday_body :: "string list \<Rightarrow> world \<Rightarrow> (exn + string) \<times> world" where
  "show_birthday_body args w =
     (case args of
        [] \<Rightarrow> (Inl (unpack_error args 1), w)
      | n # _ \<Rightarrow>
          (case find_contact n (data w) of
             None \<Rightarrow> (Inl (not_found_use_add n), w)
           | Some record \<Rightarrow>
               (Inr (colored_output (name_str (name record) @ '' has Birthday on ''
                                     @ birthday_str (birthday record))), w)))"

definition show_all_birthdays_body :: "date \<Rightarrow> world \<Rightarrow> (exn + string) \<times> world" where
  "show_all_birthdays_body today w =
     (if data w = [] then (Inl (ValueError (colored_error ''No contacts available.'')), w)
      else
        (case get_upcoming_birthdays today (data w) of
           Inl e \<Rightarrow> (Inl e, w)
         | Inr None \<Rightarrow> (Inr (colored_output ''No birthdays soon.''), w)
         | Inr (Some result) \<Rightarrow>
             (Inr (colored_output
                     (join [CHR 0x0A] (map (\<lambda>(n, d). name_str n @ '': '' @ d) result))), w)))"

text \<open>
  The handlers as the module exports them, wrapped by the decorator. The module-level
  \<open>add_birthday\<close> is \<open>add_birthday_cmd\<close> here, the method of \<open>Record\<close> keeping the name. The
  date that \<open>get_upcoming_birthdays\<close> reads from the clock is a parameter.
\<close>

definition add_contact :: "string list \<Rightarrow> world \<Rightarrow> outcome \<times> world" where
  "add_contact args = input_error (add_contact_body args)"

definition change_contact :: "string list \<Rightarrow> world \<Rightarrow> outcome \<times> world" where
  "change_contact args = input_error (change_contact_body args)"

definition show_phone :: "string list \<Rightarrow> world \<Rightarrow> outcome \<times> world" where
  "show_phone args = input_error (show_phone_body args)"

definition show_all :: "world \<Rightarrow> outcome \<times> world" where
  "show_all = input_error show_all_body"

definition add_birthday_cmd :: "string list \<Rightarrow> world \<Rightarrow> outcome \<times> world" where
  "add_birthday_cmd args = input_error (add_birthday_body args)"

definition show_birthday :: "string list \<Rightarrow> world \<Rightarrow> outcome \<times> world" where
  "show_birthday args = input_error (show_birthday_body args)"

definition show_all_birthdays :: "date \<Rightarrow> world \<Rightarrow> outcome \<times> world" where
  "show_all_birthdays today = input_error (show_all_birthdays_body today)"

section \<open>The command loop\<close>
















text \<open>
  The states of the book that the operations produce from the empty book: \<open>add_record\<close>,
  \<open>delete\<close> and the seven command handlers, with any arguments.
\<close>

inductive reachable :: "world \<Rightarrow> bool" where
  empty: "reachable \<lparr>data = [], next_id = i\<rparr>"
| add_record: "reachable w \<Longrightarrow> reachable (w\<lparr>data := fst (add_record r (data w))\<rparr>)"
| delete: "reachable w \<Longrightarrow> reachable (w\<lparr>data := fst (delete n (data w))\<rparr>)"
| add_contact: "reachable w \<Longrightarrow> reachable (snd (add_contact args w))"
| change_contact: "reachable w \<Longrightarrow> reachable (snd (change_contact args w))"
| show_phone: "reachable w \<Longrightarrow> reachable (snd (show_phone args w))"
| show_all: "reachable w \<Longrightarrow> reachable (snd (show_all w))"
| add_birthday: "reachable w \<Longrightarrow> reachable (snd (add_birthday_cmd args w))"
| show_birthday: "reachable w \<Longrightarrow> reachable (snd (show_birthday args w))"
| show_all_birthdays: "reachable w \<Longrightarrow> reachable (snd (show_all_birthdays today w))"

section \<open>Properties\<close>

lemma match_atoms_replicate_digit:
  "match_atoms (replicate n Digit) s = Some rest \<longleftrightarrow>
     (n \<le> length s \<and> (\<forall>c \<in> set (take n s). is_digit c) \<and> rest = drop n s)"
proof (induction n arbitrary: s)
  case 0
  show ?case by auto
next
  case (Suc n)
  show ?case
  proof (cases s)
    case Nil
    then show ?thesis by simp
  next
    case (Cons c cs)
    then show ?thesis using Suc [of cs] by auto
  qed
qed

lemma Phone_init_succeeds_iff:
  "(\<exists>p. Phone_init i s = Inr p) \<longleftrightarrow>
     (10 \<le> length s \<and> (\<forall>c \<in> set (take 10 s). is_digit c) \<and>
      (drop 10 s = [] \<or> drop 10 s = [CHR 0x0A]))"
proof (cases "match_atoms (replicate 10 Digit) s")
  case None
  then have "\<not> (10 \<le> length s \<and> (\<forall>c \<in> set (take 10 s). is_digit c))"
    using match_atoms_replicate_digit [of 10 s "drop 10 s"] by auto
  with None show ?thesis
    by (auto simp: Phone_init_def re_match_def phone_re_def)
next
  case (Some rest)
  then have "10 \<le> length s \<and> (\<forall>c \<in> set (take 10 s). is_digit c) \<and> rest = drop 10 s"
    using match_atoms_replicate_digit [of 10 s rest] by simp
  with Some show ?thesis
    by (auto simp: Phone_init_def re_match_def phone_re_def at_dollar_def)
qed

lemma Phone_init_fails_ValueError:
  "Phone_init i s = Inl e \<Longrightarrow>
     e = ValueError ''Invalid phone number. The number must consist of 10 digits.''"
  by (auto simp: Phone_init_def split: if_splits)

text \<open>
  Claim C3. Constructing a phone number succeeds if and only if the string consists of
  exactly 10 decimal digits. The code accepts one more string shape: at the 11-character
  string made of ten digits and a final newline, \<open>$\<close> matches before the newline and the
  construction succeeds, keeping the newline in the stored value.
\<close>

theorem Phone_init_trailing_newline:
  "Phone_init i (''1234567890'' @ [CHR 0x0A]) =
     Inr \<lparr>phone_id = i, phone_value = ''1234567890'' @ [CHR 0x0A]\<rparr>
   \<and> length (''1234567890'' @ [CHR 0x0A]) = 11"
  by (simp add: Phone_init_def re_match_def phone_re_def at_dollar_def is_digit_def
      eval_nat_numeral)

subsection \<open>Digits, decimal rendering and the date parser\<close>

lemma is_digit_cases:
  "is_digit c \<Longrightarrow> c = CHR ''0'' \<or> c = CHR ''1'' \<or> c = CHR ''2'' \<or> c = CHR ''3'' \<or> c = CHR ''4'' \<or>
     c = CHR ''5'' \<or> c = CHR ''6'' \<or> c = CHR ''7'' \<or> c = CHR ''8'' \<or> c = CHR ''9''"
  by (auto simp: is_digit_def)

lemma digit_val_range: "is_digit c \<Longrightarrow> 0 \<le> digit_val c \<and> digit_val c \<le> 9"
  by (auto dest!: is_digit_cases simp: digit_val_def)

lemma digit_char_val: "is_digit c \<Longrightarrow> digit_char (digit_val c) = c"
  by (auto dest!: is_digit_cases simp: digit_val_def digit_char_def)

lemma digit_char_0: "digit_char 0 = CHR ''0''"
  by code_simp

lemma dec_small: "0 \<le> n \<Longrightarrow> n < 10 \<Longrightarrow> dec n = [digit_char n]"
  by (simp add: dec.simps)

lemma zpad2:
  assumes "0 \<le> a" "a \<le> 9" "0 \<le> b" "b \<le> 9"
  shows "zpad 2 (10 * a + b) = [digit_char a, digit_char b]"
proof (cases "a = 0")
  case True
  then show ?thesis using assms by (simp add: zpad_def dec_small digit_char_0)
next
  case False
  then have "\<not> 10 * a + b < 10" using assms by simp
  moreover have "(10 * a + b) div 10 = a" "(10 * a + b) mod 10 = b" using assms by auto
  ultimately have "dec (10 * a + b) = [digit_char a, digit_char b]"
    using assms by (subst dec.simps) (simp add: dec_small)
  then show ?thesis by (simp add: zpad_def)
qed

lemma dec_snoc:
  assumes "0 < n" "0 \<le> d" "d \<le> 9"
  shows "dec (10 * n + d) = dec n @ [digit_char d]"
proof -
  have "\<not> 10 * n + d < 10" using assms by simp
  moreover have "(10 * n + d) div 10 = n" "(10 * n + d) mod 10 = d" using assms by auto
  ultimately show ?thesis by (subst dec.simps) simp
qed

lemma zpad4:
  assumes "0 \<le> a" "a \<le> 9" "0 \<le> b" "b \<le> 9" "0 \<le> c" "c \<le> 9" "0 \<le> d" "d \<le> 9"
  shows "zpad 4 (100 * (10 * a + b) + (10 * c + d)) =
           [digit_char a, digit_char b, digit_char c, digit_char d]"
proof -
  have n: "100 * (10 * a + b) + (10 * c + d) = 10 * (10 * (10 * a + b) + c) + d" by simp
  have s1: "0 < 10 * (10 * a + b) + c \<Longrightarrow>
      dec (10 * (10 * (10 * a + b) + c) + d) = dec (10 * (10 * a + b) + c) @ [digit_char d]"
    using assms by (intro dec_snoc) auto
  have s2: "0 < 10 * a + b \<Longrightarrow>
      dec (10 * (10 * a + b) + c) = dec (10 * a + b) @ [digit_char c]"
    using assms by (intro dec_snoc) auto
  have s3: "0 < a \<Longrightarrow> dec (10 * a + b) = dec a @ [digit_char b]"
    using assms by (intro dec_snoc) auto
  consider "0 < a" | "a = 0" "0 < b" | "a = 0" "b = 0" "0 < c" | "a = 0" "b = 0" "c = 0"
    using assms by linarith
  then show ?thesis
  proof cases
    case 1
    then have "0 < 10 * a + b" "0 < 10 * (10 * a + b) + c" using assms by auto
    then have "dec (10 * (10 * (10 * a + b) + c) + d) =
        [digit_char a, digit_char b, digit_char c, digit_char d]"
      using s1 s2 s3 1 assms dec_small [of a] by simp
    then show ?thesis unfolding n by (simp add: zpad_def)
  next
    case 2
    then have "0 < 10 * a + b" "0 < 10 * (10 * a + b) + c" using assms by auto
    then have "dec (10 * (10 * (10 * a + b) + c) + d) = dec (10 * a + b) @ [digit_char c, digit_char d]"
      using s1 s2 by simp
    moreover have "dec (10 * a + b) = [digit_char b]" using 2 assms dec_small [of b] by simp
    ultimately show ?thesis unfolding n using 2 by (simp add: zpad_def digit_char_0)
  next
    case 3
    then have "0 < 10 * (10 * a + b) + c" by auto
    then have "dec (10 * (10 * (10 * a + b) + c) + d) = dec (10 * (10 * a + b) + c) @ [digit_char d]"
      using s1 by simp
    moreover have "dec (10 * (10 * a + b) + c) = [digit_char c]" using 3 assms dec_small [of c] by simp
    ultimately show ?thesis unfolding n using 3 by (simp add: zpad_def digit_char_0 eval_nat_numeral)
  next
    case 4
    then have "dec (10 * (10 * (10 * a + b) + c) + d) = [digit_char d]"
      using assms dec_small [of d] by simp
    then show ?thesis unfolding n using 4 by (simp add: zpad_def digit_char_0 eval_nat_numeral)
  qed
qed

lemma re_d_dot:
  assumes "is_digit a" "is_digit b"
  shows "List.bind (re_d (a # b # CHR ''.'' # r)) (\<lambda>(d, r1). List.bind (re_lit CHR ''.'' r1) (f d)) =
     (if 1 \<le> two_digits a b \<and> two_digits a b \<le> 31 then f (two_digits a b) r else [])"
  using is_digit_cases [OF assms(1)] is_digit_cases [OF assms(2)]
  by (elim disjE; simp add: re_d_def re_lit_def is_digit_def is_nonzero_digit_def two_digits_def digit_val_def)

lemma re_m_dot:
  assumes "is_digit a" "is_digit b"
  shows "List.bind (re_m (a # b # CHR ''.'' # r)) (\<lambda>(m, r1). List.bind (re_lit CHR ''.'' r1) (f m)) =
     (if 1 \<le> two_digits a b \<and> two_digits a b \<le> 12 then f (two_digits a b) r else [])"
  using is_digit_cases [OF assms(1)] is_digit_cases [OF assms(2)]
  by (elim disjE; simp add: re_m_def re_lit_def is_digit_def is_nonzero_digit_def two_digits_def digit_val_def)

lemma strptime_matches_shape:
  assumes "is_digit d1" "is_digit d2" "is_digit m1" "is_digit m2"
    "is_digit y1" "is_digit y2" "is_digit y3" "is_digit y4"
  shows "strptime_matches ([d1, d2, CHR ''.'', m1, m2, CHR ''.'', y1, y2, y3, y4] @ r) =
     (if 1 \<le> two_digits d1 d2 \<and> two_digits d1 d2 \<le> 31 \<and>
         1 \<le> two_digits m1 m2 \<and> two_digits m1 m2 \<le> 12
      then [(two_digits d1 d2, two_digits m1 m2, 100 * two_digits y1 y2 + two_digits y3 y4, r)]
      else [])"
  using assms unfolding strptime_matches_def
  by (simp add: re_d_dot re_m_dot re_Y_def)

lemma match_digit:
  "match_atoms (Digit # as) s = Some r \<Longrightarrow>
     \<exists>c cs. s = c # cs \<and> is_digit c \<and> match_atoms as cs = Some r"
  by (cases s) (auto split: if_splits)

lemma match_lit:
  "match_atoms (Lit l # as) s = Some r \<Longrightarrow> \<exists>cs. s = l # cs \<and> match_atoms as cs = Some r"
  by (cases s) (auto split: if_splits)

lemma re_match_birthday_shape:
  assumes "re_match birthday_re s"
  obtains d1 d2 m1 m2 y1 y2 y3 y4 r where
    "is_digit d1" "is_digit d2" "is_digit m1" "is_digit m2"
    "is_digit y1" "is_digit y2" "is_digit y3" "is_digit y4"
    "s = [d1, d2, CHR ''.'', m1, m2, CHR ''.'', y1, y2, y3, y4] @ r"
    "r = [] \<or> r = [CHR 0x0A]"
proof -
  from assms obtain r where r: "match_atoms birthday_re s = Some r" "at_dollar r"
    by (auto simp: re_match_def split: option.splits)
  from r(1) obtain d1 s1 where 1: "s = d1 # s1" "is_digit d1"
    "match_atoms [Digit, Lit CHR ''.'', Digit, Digit, Lit CHR ''.'', Digit, Digit, Digit, Digit] s1 = Some r"
    unfolding birthday_re_def by (blast dest: match_digit)
  from 1(3) obtain d2 s2 where 2: "s1 = d2 # s2" "is_digit d2"
    "match_atoms [Lit CHR ''.'', Digit, Digit, Lit CHR ''.'', Digit, Digit, Digit, Digit] s2 = Some r"
    by (blast dest: match_digit)
  from 2(3) obtain s3 where 3: "s2 = CHR ''.'' # s3"
    "match_atoms [Digit, Digit, Lit CHR ''.'', Digit, Digit, Digit, Digit] s3 = Some r"
    by (blast dest: match_lit)
  from 3(2) obtain m1 s4 where 4: "s3 = m1 # s4" "is_digit m1"
    "match_atoms [Digit, Lit CHR ''.'', Digit, Digit, Digit, Digit] s4 = Some r"
    by (blast dest: match_digit)
  from 4(3) obtain m2 s5 where 5: "s4 = m2 # s5" "is_digit m2"
    "match_atoms [Lit CHR ''.'', Digit, Digit, Digit, Digit] s5 = Some r"
    by (blast dest: match_digit)
  from 5(3) obtain s6 where 6: "s5 = CHR ''.'' # s6"
    "match_atoms [Digit, Digit, Digit, Digit] s6 = Some r"
    by (blast dest: match_lit)
  from 6(2) obtain y1 s7 where 7: "s6 = y1 # s7" "is_digit y1"
    "match_atoms [Digit, Digit, Digit] s7 = Some r"
    by (blast dest: match_digit)
  from 7(3) obtain y2 s8 where 8: "s7 = y2 # s8" "is_digit y2"
    "match_atoms [Digit, Digit] s8 = Some r"
    by (blast dest: match_digit)
  from 8(3) obtain y3 s9 where 9: "s8 = y3 # s9" "is_digit y3"
    "match_atoms [Digit] s9 = Some r"
    by (blast dest: match_digit)
  from 9(3) obtain y4 s10 where 10: "s9 = y4 # s10" "is_digit y4"
    "match_atoms [] s10 = Some r"
    by (blast dest: match_digit)
  have e: "s = [d1, d2, CHR ''.'', m1, m2, CHR ''.'', y1, y2, y3, y4] @ r"
    using 1(1) 2(1) 3(1) 4(1) 5(1) 6(1) 7(1) 8(1) 9(1) 10(1) 10(3) by simp
  have d: "r = [] \<or> r = [CHR 0x0A]" using r(2) by (simp add: at_dollar_def)
  show thesis
    by (rule that [OF 1(2) 2(2) 4(2) 5(2) 7(2) 8(2) 9(2) 10(2) e d])
qed

lemma re_match_birthday_intro:
  assumes "is_digit d1" "is_digit d2" "is_digit m1" "is_digit m2"
    "is_digit y1" "is_digit y2" "is_digit y3" "is_digit y4"
  shows "re_match birthday_re [d1, d2, CHR ''.'', m1, m2, CHR ''.'', y1, y2, y3, y4]"
  using assms by (simp add: re_match_def birthday_re_def at_dollar_def)

lemma date_init_valid:
  "date_init y m d = (if valid_ymd y m d then Inr \<lparr>year = y, month = m, day = d\<rparr>
     else Inl (ValueError (if \<not> (1 \<le> y \<and> y \<le> 9999) then ''year is out of range''
        else if \<not> (1 \<le> m \<and> m \<le> 12) then ''month must be in 1..12''
        else ''day is out of range for month'')))"
  by (auto simp: date_init_def valid_ymd_def)

lemma days_in_month_le_31: "days_in_month y m \<le> 31"
  by (simp add: days_in_month_def)

lemma strptime_dmy_shape:
  assumes "is_digit d1" "is_digit d2" "is_digit m1" "is_digit m2"
    "is_digit y1" "is_digit y2" "is_digit y3" "is_digit y4"
  shows "strptime_dmy ([d1, d2, CHR ''.'', m1, m2, CHR ''.'', y1, y2, y3, y4] @ r) =
     (if r = [] \<and> valid_ymd (100 * two_digits y1 y2 + two_digits y3 y4) (two_digits m1 m2) (two_digits d1 d2)
      then Inr \<lparr>year = 100 * two_digits y1 y2 + two_digits y3 y4, month = two_digits m1 m2, day = two_digits d1 d2\<rparr>
      else Inl (ValueError
        (if \<not> (1 \<le> two_digits d1 d2 \<and> two_digits d1 d2 \<le> 31 \<and>
                1 \<le> two_digits m1 m2 \<and> two_digits m1 m2 \<le> 12)
         then ''time data does not match format''
         else if r \<noteq> [] then ''unconverted data remains''
         else if \<not> (1 \<le> 100 * two_digits y1 y2 + two_digits y3 y4 \<and> 100 * two_digits y1 y2 + two_digits y3 y4 \<le> 9999) then ''year is out of range''
         else ''day is out of range for month'')))"
proof -
  have le: "valid_ymd y m d \<Longrightarrow> 1 \<le> d \<and> d \<le> 31 \<and> 1 \<le> m \<and> m \<le> 12" for y m d
    using days_in_month_le_31 [of y m] by (auto simp: valid_ymd_def)
  show ?thesis
    unfolding strptime_dmy_def strptime_matches_shape [OF assms] date_init_valid
    using le [of "100 * two_digits y1 y2 + two_digits y3 y4" "two_digits m1 m2" "two_digits d1 d2"]
    by (auto simp: valid_ymd_def)
qed

lemma two_digits_zpad2: "is_digit a \<Longrightarrow> is_digit b \<Longrightarrow> zpad 2 (two_digits a b) = [a, b]"
  unfolding two_digits_def
  using zpad2 [of "digit_val a" "digit_val b"] digit_val_range [of a] digit_val_range [of b]
  by (simp add: digit_char_val)

lemma four_digits_zpad4:
  "is_digit a \<Longrightarrow> is_digit b \<Longrightarrow> is_digit c \<Longrightarrow> is_digit d \<Longrightarrow>
     zpad 4 (100 * two_digits a b + two_digits c d) = [a, b, c, d]"
  unfolding two_digits_def
  using zpad4 [of "digit_val a" "digit_val b" "digit_val c" "digit_val d"]
    digit_val_range [of a] digit_val_range [of b] digit_val_range [of c] digit_val_range [of d]
  by (simp add: digit_char_val)

text \<open>
  Claim C4, as amended. Among the strings of characters with code points below 256
  (where \<open>\d\<close> matches the digits 0 to 9 only): for every string of the shape
  \<open>DD.MM.YYYY\<close> (digits and two dots) that denotes a calendar date of the years 1 to
  9999, \<open>Birthday\<close> construction succeeds and holds that date, and the string rendering
  of the wrapper is the ISO form \<open>YYYY-MM-DD\<close> of the date; for every other such string
  (another shape, or a calendar-invalid date such as \<open>31.02.2020\<close>) construction fails
  with a \<open>ValueError\<close>.
\<close>

theorem Birthday_init_iso_rendering:
  "(is_digit d1 \<and> is_digit d2 \<and> is_digit m1 \<and> is_digit m2 \<and>
    is_digit y1 \<and> is_digit y2 \<and> is_digit y3 \<and> is_digit y4 \<and>
    s = [d1, d2, CHR ''.'', m1, m2, CHR ''.'', y1, y2, y3, y4] \<and>
    valid_ymd (100 * two_digits y1 y2 + two_digits y3 y4) (two_digits m1 m2) (two_digits d1 d2)
    \<longrightarrow>
      Birthday_init s = Inr \<lparr>year = 100 * two_digits y1 y2 + two_digits y3 y4,
                             month = two_digits m1 m2, day = two_digits d1 d2\<rparr> \<and>
      Birthday_str \<lparr>year = 100 * two_digits y1 y2 + two_digits y3 y4,
                    month = two_digits m1 m2, day = two_digits d1 d2\<rparr>
        = [y1, y2, y3, y4, CHR ''-'', m1, m2, CHR ''-'', d1, d2])
   \<and>
   ((\<forall>a1 a2 b1 b2 c1 c2 c3 c4.
       \<not> (is_digit a1 \<and> is_digit a2 \<and> is_digit b1 \<and> is_digit b2 \<and>
          is_digit c1 \<and> is_digit c2 \<and> is_digit c3 \<and> is_digit c4 \<and>
          s = [a1, a2, CHR ''.'', b1, b2, CHR ''.'', c1, c2, c3, c4] \<and>
          valid_ymd (100 * two_digits c1 c2 + two_digits c3 c4) (two_digits b1 b2) (two_digits a1 a2)))
    \<longrightarrow> (\<exists>msg. Birthday_init s = Inl (ValueError msg)))"
proof (intro conjI impI)
  assume h: "is_digit d1 \<and> is_digit d2 \<and> is_digit m1 \<and> is_digit m2 \<and>
    is_digit y1 \<and> is_digit y2 \<and> is_digit y3 \<and> is_digit y4 \<and>
    s = [d1, d2, CHR ''.'', m1, m2, CHR ''.'', y1, y2, y3, y4] \<and>
    valid_ymd (100 * two_digits y1 y2 + two_digits y3 y4) (two_digits m1 m2) (two_digits d1 d2)"
  then have m: "re_match birthday_re s"
    using re_match_birthday_intro [of d1 d2 m1 m2 y1 y2 y3 y4] by simp
  have p: "strptime_dmy s = Inr \<lparr>year = 100 * two_digits y1 y2 + two_digits y3 y4,
                             month = two_digits m1 m2, day = two_digits d1 d2\<rparr>"
    using h strptime_dmy_shape [of d1 d2 m1 m2 y1 y2 y3 y4 "[]"] by simp
  show "Birthday_init s = Inr \<lparr>year = 100 * two_digits y1 y2 + two_digits y3 y4,
                             month = two_digits m1 m2, day = two_digits d1 d2\<rparr>"
    using m p by (simp add: Birthday_init_def)
  show "Birthday_str \<lparr>year = 100 * two_digits y1 y2 + two_digits y3 y4,
                    month = two_digits m1 m2, day = two_digits d1 d2\<rparr>
        = [y1, y2, y3, y4, CHR ''-'', m1, m2, CHR ''-'', d1, d2]"
    using h by (simp add: Birthday_str_def date_str_def two_digits_zpad2 four_digits_zpad4)
next
  assume n: "\<forall>a1 a2 b1 b2 c1 c2 c3 c4.
       \<not> (is_digit a1 \<and> is_digit a2 \<and> is_digit b1 \<and> is_digit b2 \<and>
          is_digit c1 \<and> is_digit c2 \<and> is_digit c3 \<and> is_digit c4 \<and>
          s = [a1, a2, CHR ''.'', b1, b2, CHR ''.'', c1, c2, c3, c4] \<and>
          valid_ymd (100 * two_digits c1 c2 + two_digits c3 c4) (two_digits b1 b2) (two_digits a1 a2))"
  show "\<exists>msg. Birthday_init s = Inl (ValueError msg)"
  proof (cases "re_match birthday_re s")
    case False
    then show ?thesis by (simp add: Birthday_init_def)
  next
    case True
    then obtain a1 a2 b1 b2 c1 c2 c3 c4 r where
      d: "is_digit a1" "is_digit a2" "is_digit b1" "is_digit b2"
         "is_digit c1" "is_digit c2" "is_digit c3" "is_digit c4"
      and s: "s = [a1, a2, CHR ''.'', b1, b2, CHR ''.'', c1, c2, c3, c4] @ r"
      by (rule re_match_birthday_shape)
    have "\<not> (r = [] \<and> valid_ymd (100 * two_digits c1 c2 + two_digits c3 c4) (two_digits b1 b2) (two_digits a1 a2))"
      using n d s by auto
    then have "\<exists>msg. strptime_dmy s = Inl (ValueError msg)"
      unfolding s strptime_dmy_shape [OF d] by (simp only: if_False) blast
    then show ?thesis using True by (auto simp: Birthday_init_def)
  qed
qed

theorem Birthday_init_iso_rendering_witness:
  "Birthday_init ''15.06.1990'' = Inr \<lparr>year = 1990, month = 6, day = 15\<rparr> \<and>
   Birthday_str \<lparr>year = 1990, month = 6, day = 15\<rparr> = ''1990-06-15'' \<and>
   (\<exists>msg. Birthday_init ''31.02.2020'' = Inl (ValueError msg))"
proof -
  have v: "valid_ymd 1990 6 15" by (simp add: valid_ymd_def days_in_month_def)
  have t: "two_digits CHR ''1'' CHR ''5'' = 15" "two_digits CHR ''0'' CHR ''6'' = 6"
    "two_digits CHR ''1'' CHR ''9'' = 19" "two_digits CHR ''9'' CHR ''0'' = 90"
    by (simp_all add: two_digits_def digit_val_def)
  have a: "Birthday_init ''15.06.1990'' = Inr \<lparr>year = 1990, month = 6, day = 15\<rparr> \<and>
   Birthday_str \<lparr>year = 1990, month = 6, day = 15\<rparr> = ''1990-06-15''"
    using Birthday_init_iso_rendering [of "CHR ''1''" "CHR ''5''" "CHR ''0''" "CHR ''6''"
        "CHR ''1''" "CHR ''9''" "CHR ''9''" "CHR ''0''" "''15.06.1990''"] v
    by (simp add: t is_digit_def)
  have nv: "\<not> valid_ymd 2020 2 31" by (simp add: valid_ymd_def days_in_month_def)
  have t2: "two_digits CHR ''3'' CHR ''1'' = 31" "two_digits CHR ''0'' CHR ''2'' = 2"
    "two_digits CHR ''2'' CHR ''0'' = 20"
    by (simp_all add: two_digits_def digit_val_def)
  have b: "\<exists>msg. Birthday_init ''31.02.2020'' = Inl (ValueError msg)"
  proof -
    have "\<forall>a1 a2 b1 b2 c1 c2 c3 c4.
       \<not> (is_digit a1 \<and> is_digit a2 \<and> is_digit b1 \<and> is_digit b2 \<and>
          is_digit c1 \<and> is_digit c2 \<and> is_digit c3 \<and> is_digit c4 \<and>
          ''31.02.2020'' = [a1, a2, CHR ''.'', b1, b2, CHR ''.'', c1, c2, c3, c4] \<and>
          valid_ymd (100 * two_digits c1 c2 + two_digits c3 c4) (two_digits b1 b2) (two_digits a1 a2))"
      using nv by (intro allI notI) (clarsimp simp: t2)
    then show ?thesis
      using Birthday_init_iso_rendering [of "CHR ''3''" "CHR ''1''" "CHR ''0''" "CHR ''2''"
        "CHR ''2''" "CHR ''0''" "CHR ''2''" "CHR ''0''" "''31.02.2020''"] by blast
  qed
  from a b show ?thesis by simp
qed

text \<open>
  The rendering of a constructed \<open>Birthday\<close> is not the \<open>DD.MM.YYYY\<close> input:
  \<open>Field.__str__\<close> applies \<open>str\<close> to the held \<open>date\<close>.
\<close>

theorem Birthday_str_not_roundtrip:
  "Birthday_init ''15.06.1990'' = Inr \<lparr>year = 1990, month = 6, day = 15\<rparr> \<and>
   Birthday_str \<lparr>year = 1990, month = 6, day = 15\<rparr> = ''1990-06-15'' \<and>
   Birthday_str \<lparr>year = 1990, month = 6, day = 15\<rparr> \<noteq> ''15.06.1990''"
  by code_simp

subsection \<open>Records and the birthday query\<close>

lemma edit_scan_found:
  "k < length ps \<Longrightarrow> phone_value (ps ! k) = old \<Longrightarrow> (\<forall>j<k. phone_value (ps ! j) \<noteq> old) \<Longrightarrow>
     edit_scan i old new ps =
       (case Phone_init i new of Inl e \<Rightarrow> Inl e | Inr q \<Rightarrow> Inr (ps[k := q], True))"
proof (induction ps arbitrary: k)
  case Nil
  then show ?case by simp
next
  case (Cons p ps)
  show ?case
  proof (cases k)
    case 0
    with Cons.prems show ?thesis by (simp split: sum.splits)
  next
    case (Suc k')
    with Cons.prems have "phone_value p \<noteq> old" by auto
    moreover have "edit_scan i old new ps =
       (case Phone_init i new of Inl e \<Rightarrow> Inl e | Inr q \<Rightarrow> Inr (ps[k' := q], True))"
      using Cons.prems Suc by (intro Cons.IH) auto
    ultimately show ?thesis using Suc by (simp split: sum.splits)
  qed
qed

lemma edit_scan_absent:
  "(\<forall>p \<in> set ps. phone_value p \<noteq> old) \<Longrightarrow> edit_scan i old new ps = Inr (ps, False)"
  by (induction ps) auto

text \<open>
  Claim C5. When the phone list has an entry whose value is \<open>old\<close>, with \<open>k\<close> the index of
  the first one, \<open>edit_phone\<close> puts the newly validated \<open>Phone(new)\<close> at index \<open>k\<close>, leaves
  every other entry as it was and returns the "changed" text; when \<open>new\<close> does not pass
  the validation, the \<open>ValueError\<close> of the constructor is raised before the list is
  touched. When no entry has the value \<open>old\<close>, the record is unchanged and the
  "not found" text is returned, without an error.
\<close>

theorem edit_phone_replaces_first:
  "(k < length (phones r) \<and> phone_value (phones r ! k) = old \<and>
      (\<forall>j<k. phone_value (phones r ! j) \<noteq> old) \<longrightarrow>
        (\<forall>q. Phone_init i new = Inr q \<longrightarrow>
           phone_value q = new \<and>
           edit_phone i old new r =
             Inr (r\<lparr>phones := (phones r)[k := q]\<rparr>, ''Phone '' @ old @ '' changed to '' @ new)) \<and>
        (\<forall>e. Phone_init i new = Inl e \<longrightarrow> edit_phone i old new r = Inl e))
   \<and> ((\<forall>p \<in> set (phones r). phone_value p \<noteq> old) \<longrightarrow>
        edit_phone i old new r = Inr (r, ''Phone '' @ old @ '' not found''))"
proof (intro conjI impI allI)
  fix q
  assume h: "k < length (phones r) \<and> phone_value (phones r ! k) = old \<and>
      (\<forall>j<k. phone_value (phones r ! j) \<noteq> old)" and q: "Phone_init i new = Inr q"
  from q show "phone_value q = new" by (auto simp: Phone_init_def split: if_splits)
  from h have "edit_scan i old new (phones r) =
       (case Phone_init i new of Inl e \<Rightarrow> Inl e | Inr q \<Rightarrow> Inr ((phones r)[k := q], True))"
    by (intro edit_scan_found) auto
  with q show "edit_phone i old new r =
             Inr (r\<lparr>phones := (phones r)[k := q]\<rparr>, ''Phone '' @ old @ '' changed to '' @ new)"
    by (simp add: edit_phone_def)
next
  fix e
  assume h: "k < length (phones r) \<and> phone_value (phones r ! k) = old \<and>
      (\<forall>j<k. phone_value (phones r ! j) \<noteq> old)" and e: "Phone_init i new = Inl e"
  from h have "edit_scan i old new (phones r) =
       (case Phone_init i new of Inl e \<Rightarrow> Inl e | Inr q \<Rightarrow> Inr ((phones r)[k := q], True))"
    by (intro edit_scan_found) auto
  with e show "edit_phone i old new r = Inl e" by (simp add: edit_phone_def)
next
  assume "\<forall>p \<in> set (phones r). phone_value p \<noteq> old"
  then show "edit_phone i old new r = Inr (r, ''Phone '' @ old @ '' not found'')"
    by (simp add: edit_phone_def edit_scan_absent)
qed

theorem edit_phone_replaces_first_witness:
  "edit_phone 7 ''2222222222'' ''3333333333''
      \<lparr>name = StrName ''John'',
       phones = [\<lparr>phone_id = 1, phone_value = ''1111111111''\<rparr>,
                 \<lparr>phone_id = 2, phone_value = ''2222222222''\<rparr>,
                 \<lparr>phone_id = 3, phone_value = ''2222222222''\<rparr>],
       birthday = NoBirthday\<rparr>
    = Inr (\<lparr>name = StrName ''John'',
            phones = [\<lparr>phone_id = 1, phone_value = ''1111111111''\<rparr>,
                      \<lparr>phone_id = 7, phone_value = ''3333333333''\<rparr>,
                      \<lparr>phone_id = 3, phone_value = ''2222222222''\<rparr>],
            birthday = NoBirthday\<rparr>,
           ''Phone 2222222222 changed to 3333333333'')
   \<and> edit_phone 7 ''2222222222'' ''33''
      \<lparr>name = StrName ''John'',
       phones = [\<lparr>phone_id = 1, phone_value = ''1111111111''\<rparr>,
                 \<lparr>phone_id = 2, phone_value = ''2222222222''\<rparr>,
                 \<lparr>phone_id = 3, phone_value = ''2222222222''\<rparr>],
       birthday = NoBirthday\<rparr>
    = Inl (ValueError ''Invalid phone number. The number must consist of 10 digits.'')
   \<and> edit_phone 7 ''4444444444'' ''3333333333''
      \<lparr>name = StrName ''John'',
       phones = [\<lparr>phone_id = 1, phone_value = ''1111111111''\<rparr>,
                 \<lparr>phone_id = 2, phone_value = ''2222222222''\<rparr>,
                 \<lparr>phone_id = 3, phone_value = ''2222222222''\<rparr>],
       birthday = NoBirthday\<rparr>
    = Inr (\<lparr>name = StrName ''John'',
       phones = [\<lparr>phone_id = 1, phone_value = ''1111111111''\<rparr>,
                 \<lparr>phone_id = 2, phone_value = ''2222222222''\<rparr>,
                 \<lparr>phone_id = 3, phone_value = ''2222222222''\<rparr>],
       birthday = NoBirthday\<rparr>, ''Phone 4444444444 not found'')"
proof -
  let ?r = "\<lparr>name = StrName ''John'',
       phones = [\<lparr>phone_id = 1, phone_value = ''1111111111''\<rparr>,
                 \<lparr>phone_id = 2, phone_value = ''2222222222''\<rparr>,
                 \<lparr>phone_id = 3, phone_value = ''2222222222''\<rparr>],
       birthday = NoBirthday\<rparr>"
  have p1: "Phone_init 7 ''3333333333'' = Inr \<lparr>phone_id = 7, phone_value = ''3333333333''\<rparr>"
    by code_simp
  have p2: "Phone_init 7 ''33'' = Inl (ValueError ''Invalid phone number. The number must consist of 10 digits.'')"
    by code_simp
  have k: "(1::nat) < length (phones ?r) \<and> phone_value (phones ?r ! 1) = ''2222222222'' \<and>
      (\<forall>j<1. phone_value (phones ?r ! j) \<noteq> ''2222222222'')"
    by simp
  have a: "edit_phone 7 ''2222222222'' ''3333333333'' ?r =
      Inr (?r\<lparr>phones := (phones ?r)[1 := \<lparr>phone_id = 7, phone_value = ''3333333333''\<rparr>]\<rparr>,
           ''Phone '' @ ''2222222222'' @ '' changed to '' @ ''3333333333'')"
    using edit_phone_replaces_first [of 1 ?r "''2222222222''" 7 "''3333333333''"] k p1 by blast
  have b: "edit_phone 7 ''2222222222'' ''33'' ?r =
      Inl (ValueError ''Invalid phone number. The number must consist of 10 digits.'')"
    using edit_phone_replaces_first [of 1 ?r "''2222222222''" 7 "''33''"] k p2 by blast
  have n: "\<forall>p \<in> set (phones ?r). phone_value p \<noteq> ''4444444444''" by simp
  have c: "edit_phone 7 ''4444444444'' ''3333333333'' ?r = Inr (?r, ''Phone '' @ ''4444444444'' @ '' not found'')"
    using edit_phone_replaces_first [of 1 ?r "''4444444444''" 7 "''3333333333''"] n by blast
  from a b c show ?thesis by simp
qed

lemma find_loop_fresh:
  "(\<forall>p \<in> set ps. phone_id p \<noteq> phone_id q) \<Longrightarrow> set ps \<subseteq> set all_phones \<Longrightarrow>
     find_loop all_phones q ps = ReturnedNone"
proof (induction ps)
  case Nil
  show ?case by simp
next
  case (Cons p ps)
  then have "py_in p all_phones"
    by (auto simp: py_in_def py_eq_def list_ex_iff)
  with Cons show ?case by (simp add: py_eq_def)
qed

text \<open>
  Claim C6. For a phone object whose identity differs from that of every stored entry
  (whatever its digits), \<open>find_phone\<close> never returns a stored phone: the loop ends
  without a \<open>return\<close> and the result is \<open>None\<close>.
\<close>

theorem find_phone_fresh_never_found:
  "(\<forall>p \<in> set (phones r). phone_id p \<noteq> phone_id q) \<Longrightarrow>
     find_phone q r = ReturnedNone \<and> (\<forall>p. find_phone q r \<noteq> FoundPhone p)"
  by (simp add: find_phone_def find_loop_fresh)

theorem find_phone_fresh_never_found_witness:
  "find_phone \<lparr>phone_id = 5, phone_value = ''1234567890''\<rparr>
     \<lparr>name = StrName ''John'', phones = [\<lparr>phone_id = 1, phone_value = ''1234567890''\<rparr>],
      birthday = NoBirthday\<rparr> = ReturnedNone"
  using find_phone_fresh_never_found [of
     "\<lparr>name = StrName ''John'', phones = [\<lparr>phone_id = 1, phone_value = ''1234567890''\<rparr>],
      birthday = NoBirthday\<rparr>" "\<lparr>phone_id = 5, phone_value = ''1234567890''\<rparr>"]
  by simp

lemma upcoming_entry_BirthdayObj:
  "birthday c = BirthdayObj b \<Longrightarrow>
     upcoming_entry today c = Inl (TypeError ''strptime() argument 1 must be str, not Birthday'')"
  by (simp add: upcoming_entry_def)

lemma upcoming_loop_fails:
  "c \<in> set cs \<Longrightarrow> upcoming_entry today c = Inl e \<Longrightarrow> \<exists>e'. upcoming_loop today cs acc = Inl e'"
proof (induction cs arbitrary: acc)
  case Nil
  then show ?case by simp
next
  case (Cons x xs)
  show ?case
  proof (cases "upcoming_entry today x")
    case (Inl e')
    then show ?thesis by simp
  next
    case (Inr v)
    with Cons.prems have "c \<in> set xs" by auto
    with Cons.IH Cons.prems(2) Inr show ?thesis by (cases v) auto
  qed
qed

text \<open>
  Claim C2. When some contact of the book stores a \<open>Birthday\<close> object,
  \<open>get_upcoming_birthdays\<close> fails: the loop body raises \<open>TypeError\<close> at that contact
  because \<open>strptime\<close> is given the wrapper, and the call as a whole ends in an exception
  (this one, or one raised at an earlier contact).
\<close>

theorem get_upcoming_birthdays_fails_on_Birthday:
  "(k, c) \<in> set d \<Longrightarrow> birthday c = BirthdayObj b \<Longrightarrow>
     upcoming_entry today c = Inl (TypeError ''strptime() argument 1 must be str, not Birthday'')
     \<and> (\<exists>e. get_upcoming_birthdays today d = Inl e)"
proof -
  assume h: "(k, c) \<in> set d" "birthday c = BirthdayObj b"
  have e: "upcoming_entry today c = Inl (TypeError ''strptime() argument 1 must be str, not Birthday'')"
    using h(2) by (rule upcoming_entry_BirthdayObj)
  from h(1) have "c \<in> set (map snd d)" by force
  from upcoming_loop_fails [OF this e] obtain e' where "upcoming_loop today (map snd d) [] = Inl e'"
    by blast
  then have "get_upcoming_birthdays today d = Inl e'" by (simp add: get_upcoming_birthdays_def)
  with e show ?thesis by blast
qed

theorem get_upcoming_birthdays_fails_on_Birthday_witness:
  "\<exists>e. get_upcoming_birthdays \<lparr>year = 2024, month = 6, day = 10\<rparr>
     [(''Ann'', \<lparr>name = StrName ''Ann'', phones = [], birthday = NoBirthday\<rparr>),
      (''John'', \<lparr>name = StrName ''John'', phones = [],
                 birthday = BirthdayObj \<lparr>year = 1990, month = 6, day = 15\<rparr>\<rparr>)] = Inl e"
  using get_upcoming_birthdays_fails_on_Birthday [of "''John''"
      "\<lparr>name = StrName ''John'', phones = [],
                 birthday = BirthdayObj \<lparr>year = 1990, month = 6, day = 15\<rparr>\<rparr>"
      "[(''Ann'', \<lparr>name = StrName ''Ann'', phones = [], birthday = NoBirthday\<rparr>),
      (''John'', \<lparr>name = StrName ''John'', phones = [],
                 birthday = BirthdayObj \<lparr>year = 1990, month = 6, day = 15\<rparr>\<rparr>)]"
      "\<lparr>year = 1990, month = 6, day = 15\<rparr>" "\<lparr>year = 2024, month = 6, day = 10\<rparr>"]
  by simp

text \<open>
  Claim C1. \<open>get_upcoming_birthdays\<close> returns, for every book and every \<open>today\<close>, the
  contacts whose next birthday is 0 to 7 days away. At a contact born on 29 February and
  a \<open>today\<close> in a year that is not a leap year the code does not return:
  \<open>birthday.replace(year=today.year)\<close> raises \<open>ValueError\<close>.
\<close>

theorem get_upcoming_birthdays_feb29_raises:
  "get_upcoming_birthdays \<lparr>year = 2023, month = 2, day = 25\<rparr>
     [(''John'', \<lparr>name = StrName ''John'', phones = [], birthday = RawBirthday ''29.02.2000''\<rparr>)]
   = Inl (ValueError ''day is out of range for month'')"
  by code_simp

text \<open>The three dated examples of the specification, with birthdays stored as strings.\<close>

lemma get_upcoming_birthdays_saturday_example:
  "get_upcoming_birthdays \<lparr>year = 2024, month = 6, day = 10\<rparr>
     [(''John'', \<lparr>name = StrName ''John'', phones = [], birthday = RawBirthday ''15.06.1990''\<rparr>)]
   = Inr (Some [(StrName ''John'', ''17.06.2024'')])"
  by code_simp

lemma get_upcoming_birthdays_weekday_example:
  "get_upcoming_birthdays \<lparr>year = 2024, month = 6, day = 10\<rparr>
     [(''John'', \<lparr>name = StrName ''John'', phones = [], birthday = RawBirthday ''12.06.1990''\<rparr>)]
   = Inr (Some [(StrName ''John'', ''12.06.2024'')])"
  by code_simp

lemma get_upcoming_birthdays_passed_example:
  "get_upcoming_birthdays \<lparr>year = 2024, month = 6, day = 10\<rparr>
     [(''John'', \<lparr>name = StrName ''John'', phones = [], birthday = RawBirthday ''01.06.1990''\<rparr>)]
   = Inr None"
  by code_simp

subsection \<open>Command handlers and the loop\<close>

lemma update_absent: "map_of al k = None \<Longrightarrow> AList.update k v al = al @ [(k, v)]"
  by (induction al) (auto split: if_splits)

lemma set_update_cases:
  "x \<in> set (AList.update k v al) \<Longrightarrow> x \<in> set al \<or> x = (k, v)"
  by (induction al) (auto split: if_splits)

lemma set_delete_subset: "x \<in> set (AList.delete k al) \<Longrightarrow> x \<in> set al"
  by (auto simp: AList.delete_eq)

lemma snd_input_error: "snd (input_error f w) = snd (f w)"
  by (cases "f w") (auto simp: input_error_def split: sum.splits exn.splits)


























lemma keys_update:
  assumes "\<forall>(k, r) \<in> set d. name_str (name r) = k" "name_str (name r') = k'"
  shows "\<forall>(k, r) \<in> set (AList.update k' r' d). name_str (name r) = k"
  using assms by (auto dest!: set_update_cases)

lemma keys_delete:
  assumes "\<forall>(k, r) \<in> set d. name_str (name r) = k"
  shows "\<forall>(k, r) \<in> set (AList.delete k' d). name_str (name r) = k"
  using assms by (auto dest!: set_delete_subset)

lemma find_contact_key:
  assumes "\<forall>(k, r) \<in> set d. name_str (name r) = k" "find_contact n d = Some r"
  shows "name_str (name r) = n"
  using assms by (auto simp: find_contact_def dest!: map_of_SomeD)

lemma edit_phone_name: "edit_phone i old new r = Inr (r', s) \<Longrightarrow> name r' = name r"
  by (auto simp: edit_phone_def split: sum.splits)

lemma add_contact_body_keys:
  assumes "\<forall>(k, r) \<in> set (data w). name_str (name r) = k"
  shows "\<forall>(k, r) \<in> set (data (snd (add_contact_body args w))). name_str (name r) = k"
proof (cases "\<exists>n phone. args = [n, phone]")
  case False
  then have "add_contact_body args w = (Inl (unpack_error args 2), w)"
    by (auto simp: add_contact_body_def split: list.splits)
  with assms show ?thesis by simp
next
  case True
  then obtain n phone where a: "args = [n, phone]" by blast
  show ?thesis
  proof (cases "find_contact n (data w)")
    case None
    let ?r = "Record_init (StrName n)"
    let ?d1 = "AList.update n ?r (data w)"
    have k1: "\<forall>(k, r) \<in> set ?d1. name_str (name r) = k"
      by (rule keys_update [OF assms]) (simp add: Record_init_def)
    have k2: "\<forall>(k, r) \<in> set (AList.update n (fst (add_phone p ?r)) ?d1). name_str (name r) = k" for p
      by (rule keys_update [OF k1]) (simp add: Record_init_def add_phone_def)
    show ?thesis
      using None a k1 k2
      by (simp add: add_contact_body_def add_record_def Record_init_def Let_def split: sum.splits)
  next
    case (Some r)
    have n: "name_str (name r) = n" using assms Some by (rule find_contact_key)
    have k2: "\<forall>(k, r') \<in> set (AList.update n (fst (add_phone p r)) (data w)). name_str (name r') = k" for p
      by (rule keys_update [OF assms]) (simp add: add_phone_def n)
    show ?thesis
      using Some a assms k2
      by (simp add: add_contact_body_def split: sum.splits)
  qed
qed

lemma change_contact_body_keys:
  assumes "\<forall>(k, r) \<in> set (data w). name_str (name r) = k"
  shows "\<forall>(k, r) \<in> set (data (snd (change_contact_body args w))). name_str (name r) = k"
proof (cases "\<exists>n old new. args = [n, old, new]")
  case False
  then have "change_contact_body args w = (Inl (unpack_error args 3), w)"
    by (auto simp: change_contact_body_def split: list.splits)
  with assms show ?thesis by simp
next
  case True
  then obtain n old new where a: "args = [n, old, new]" by blast
  show ?thesis
  proof (cases "find_contact n (data w)")
    case None
    with a assms show ?thesis by (simp add: change_contact_body_def)
  next
    case (Some r)
    have n: "name_str (name r) = n" using assms Some by (rule find_contact_key)
    show ?thesis
    proof (cases "edit_phone (next_id w) old new r")
      case (Inl e)
      with a Some assms show ?thesis by (simp add: change_contact_body_def)
    next
      case (Inr res)
      obtain r' s where res: "res = (r', s)" by (cases res)
      with Inr have "name r' = name r" by (auto dest: edit_phone_name)
      with n have "name_str (name r') = n" by simp
      then have "\<forall>(k, r) \<in> set (AList.update n r' (data w)). name_str (name r) = k"
        by (rule keys_update [OF assms])
      with a Some Inr res show ?thesis by (simp add: change_contact_body_def)
    qed
  qed
qed

lemma add_birthday_body_keys:
  assumes "\<forall>(k, r) \<in> set (data w). name_str (name r) = k"
  shows "\<forall>(k, r) \<in> set (data (snd (add_birthday_body args w))). name_str (name r) = k"
proof (cases "\<exists>n b. args = [n, b]")
  case False
  then have "add_birthday_body args w = (Inl (unpack_error args 2), w)"
    by (auto simp: add_birthday_body_def split: list.splits)
  with assms show ?thesis by simp
next
  case True
  then obtain n b where a: "args = [n, b]" by blast
  show ?thesis
  proof (cases "find_contact n (data w)")
    case None
    with a assms show ?thesis by (simp add: add_birthday_body_def)
  next
    case (Some r)
    have n: "name_str (name r) = n" using assms Some by (rule find_contact_key)
    have "\<forall>(k, r') \<in> set (AList.update n (r\<lparr>birthday := RawBirthday b\<rparr>) (data w)). name_str (name r') = k"
      by (rule keys_update [OF assms]) (simp add: n)
    with a Some show ?thesis by (simp add: add_birthday_body_def add_birthday_def)
  qed
qed

lemma read_only_bodies:
  "snd (show_phone_body args w) = w"
  "snd (show_all_body w) = w"
  "snd (show_birthday_body args w) = w"
  "snd (show_all_birthdays_body today w) = w"
  by (auto simp: show_phone_body_def show_all_body_def show_birthday_body_def
      show_all_birthdays_body_def split: list.splits option.splits sum.splits)

lemma reachable_keys:
  "reachable w \<Longrightarrow> \<forall>(k, r) \<in> set (data w). name_str (name r) = k"
proof (induction rule: reachable.induct)
  case (empty i)
  show ?case by simp
next
  case (add_record w r)
  then show ?case by (simp add: add_record_def keys_update)
next
  case (delete w n)
  then show ?case by (simp add: delete_def keys_delete)
next
  case (add_contact w args)
  then show ?case by (simp add: add_contact_def snd_input_error add_contact_body_keys)
next
  case (change_contact w args)
  then show ?case by (simp add: change_contact_def snd_input_error change_contact_body_keys)
next
  case (show_phone w args)
  then show ?case by (simp add: show_phone_def snd_input_error read_only_bodies)
next
  case (show_all w)
  then show ?case by (simp add: show_all_def snd_input_error read_only_bodies)
next
  case (add_birthday w args)
  then show ?case by (simp add: add_birthday_cmd_def snd_input_error add_birthday_body_keys)
next
  case (show_birthday w args)
  then show ?case by (simp add: show_birthday_def snd_input_error read_only_bodies)
next
  case (show_all_birthdays w today)
  then show ?case by (simp add: show_all_birthdays_def snd_input_error read_only_bodies)
qed

text \<open>
  Claim C8. In every state of the book produced from the empty book by \<open>add_record\<close>,
  \<open>delete\<close> and the command handlers, the record stored under a key has a name whose
  string rendering is that key.
\<close>

theorem reachable_name_matches_key:
  "reachable w \<Longrightarrow> find_contact k (data w) = Some r \<Longrightarrow> name_str (name r) = k"
  using reachable_keys [of w] by (rule find_contact_key)

theorem reachable_name_matches_key_witness:
  "reachable (snd (add_contact [''John'', ''1234567890''] \<lparr>data = [], next_id = 0\<rparr>)) \<and>
   find_contact ''John'' (data (snd (add_contact [''John'', ''1234567890''] \<lparr>data = [], next_id = 0\<rparr>)))
     = Some \<lparr>name = StrName ''John'', phones = [\<lparr>phone_id = 0, phone_value = ''1234567890''\<rparr>],
             birthday = NoBirthday\<rparr> \<and>
   name_str (name \<lparr>name = StrName ''John'', phones = [\<lparr>phone_id = 0, phone_value = ''1234567890''\<rparr>],
             birthday = NoBirthday\<rparr>) = ''John''"
proof -
  have r: "reachable (snd (add_contact [''John'', ''1234567890''] \<lparr>data = [], next_id = 0\<rparr>))"
    by (rule reachable.add_contact) (rule reachable.empty)
  have f: "find_contact ''John'' (data (snd (add_contact [''John'', ''1234567890''] \<lparr>data = [], next_id = 0\<rparr>)))
     = Some \<lparr>name = StrName ''John'', phones = [\<lparr>phone_id = 0, phone_value = ''1234567890''\<rparr>],
             birthday = NoBirthday\<rparr>"
    by code_simp
  from r f reachable_name_matches_key [OF r f] show ?thesis by simp
qed

text \<open>
  Claim C9. For every string \<open>b\<close>, valid date or not, the add-birthday command on an
  existing contact succeeds and stores \<open>b\<close> itself, a plain string, as the birthday of
  the contact: no \<open>Birthday\<close> is constructed and nothing is validated.
\<close>

theorem add_birthday_stores_raw_string:
  assumes "find_contact n (data w) = Some r"
  shows "add_birthday_cmd [n, b] w =
           (Returned (Str (colored_output
              (name_str (name r) @ apos @ ''s birthday on '' @ b @ '' added''))),
            w\<lparr>data := AList.update n (r\<lparr>birthday := RawBirthday b\<rparr>) (data w)\<rparr>)
         \<and> find_contact n (data (snd (add_birthday_cmd [n, b] w)))
             = Some (r\<lparr>birthday := RawBirthday b\<rparr>)"
  using assms
  by (simp add: add_birthday_cmd_def input_error_def add_birthday_body_def add_birthday_def
      find_contact_def update_conv')

theorem add_birthday_stores_raw_string_witness:
  "find_contact ''John''
     (data (snd (add_birthday_cmd [''John'', ''not-a-date'']
        \<lparr>data = [(''John'', \<lparr>name = StrName ''John'', phones = [], birthday = NoBirthday\<rparr>)],
         next_id = 0\<rparr>)))
   = Some \<lparr>name = StrName ''John'', phones = [], birthday = RawBirthday ''not-a-date''\<rparr>"
  using add_birthday_stores_raw_string [of "''John''"
      "\<lparr>data = [(''John'', \<lparr>name = StrName ''John'', phones = [], birthday = NoBirthday\<rparr>)],
         next_id = 0\<rparr>" "\<lparr>name = StrName ''John'', phones = [], birthday = NoBirthday\<rparr>"
      "''not-a-date''"]
  by (simp add: find_contact_def)

text \<open>
  Claim C10, as amended. For every name not yet in the book and every phone string that
  is not empty and fails the \<open>Phone\<close> validation, the add command returns the validation
  error and still leaves a new record for the name, with an empty phone list, in the
  book. For the empty phone string, which fails the validation too, \<open>if phone:\<close> skips
  the construction: for every name not yet in the book the command returns the success
  text, and the new record is in the book all the same.
\<close>

theorem add_contact_not_atomic:
  "(find_contact n (data w) = None \<and> phone \<noteq> [] \<and> Phone_init (next_id w) phone = Inl e
      \<longrightarrow>
        add_contact [n, phone] w =
          (Returned (ExcObj (ValueError
             ''Invalid phone number. The number must consist of 10 digits.'')),
           w\<lparr>data := data w @ [(n, \<lparr>name = StrName n, phones = [], birthday = NoBirthday\<rparr>)]\<rparr>))
   \<and>
   (find_contact n (data w) = None
      \<longrightarrow>
        Phone_init i [] =
          Inl (ValueError ''Invalid phone number. The number must consist of 10 digits.'') \<and>
        add_contact [n, []] w =
          (Returned (Str (colored_output (''Contact '' @ n @ '' added to address book.''))),
           w\<lparr>data := data w @ [(n, \<lparr>name = StrName n, phones = [], birthday = NoBirthday\<rparr>)]\<rparr>))"
proof (intro conjI impI)
  assume h: "find_contact n (data w) = None \<and> phone \<noteq> [] \<and>
    Phone_init (next_id w) phone = Inl e"
  then have e: "e = ValueError ''Invalid phone number. The number must consist of 10 digits.''"
    by (intro Phone_init_fails_ValueError [of "next_id w" phone]) simp
  have u: "AList.update n (Record_init (StrName n)) (data w)
        = data w @ [(n, Record_init (StrName n))]"
    using h by (intro update_absent) (simp add: find_contact_def)
  show "add_contact [n, phone] w =
          (Returned (ExcObj (ValueError
             ''Invalid phone number. The number must consist of 10 digits.'')),
           w\<lparr>data := data w @ [(n, \<lparr>name = StrName n, phones = [], birthday = NoBirthday\<rparr>)]\<rparr>)"
    using h e u
    by (simp add: add_contact_def input_error_def add_contact_body_def add_record_def
        Record_init_def Let_def)
next
  show "Phone_init i [] =
          Inl (ValueError ''Invalid phone number. The number must consist of 10 digits.'')"
    by (simp add: Phone_init_def re_match_def phone_re_def eval_nat_numeral)
next
  assume f: "find_contact n (data w) = None"
  have u: "AList.update n (Record_init (StrName n)) (data w)
        = data w @ [(n, Record_init (StrName n))]"
    using f by (intro update_absent) (simp add: find_contact_def)
  show "add_contact [n, []] w =
          (Returned (Str (colored_output (''Contact '' @ n @ '' added to address book.''))),
           w\<lparr>data := data w @ [(n, \<lparr>name = StrName n, phones = [], birthday = NoBirthday\<rparr>)]\<rparr>)"
    using f u
    by (simp add: add_contact_def input_error_def add_contact_body_def add_record_def
        Record_init_def Let_def)
qed

theorem add_contact_not_atomic_witness:
  "add_contact [''Bob'', ''12''] \<lparr>data = [], next_id = 0\<rparr> =
     (Returned (ExcObj (ValueError
        ''Invalid phone number. The number must consist of 10 digits.'')),
      \<lparr>data = [(''Bob'', \<lparr>name = StrName ''Bob'', phones = [], birthday = NoBirthday\<rparr>)],
       next_id = 0\<rparr>)
   \<and>
   add_contact [''Ann'', []]
       \<lparr>data = [(''Bob'', \<lparr>name = StrName ''Bob'', phones = [], birthday = NoBirthday\<rparr>)],
        next_id = 0\<rparr> =
     (Returned (Str (colored_output (''Contact '' @ ''Ann'' @ '' added to address book.''))),
      \<lparr>data = [(''Bob'', \<lparr>name = StrName ''Bob'', phones = [], birthday = NoBirthday\<rparr>),
               (''Ann'', \<lparr>name = StrName ''Ann'', phones = [], birthday = NoBirthday\<rparr>)],
       next_id = 0\<rparr>)"
proof -
  have p: "Phone_init (next_id \<lparr>data = [], next_id = 0\<rparr>) ''12'' =
      Inl (ValueError ''Invalid phone number. The number must consist of 10 digits.'')"
    by code_simp
  have f: "find_contact ''Bob'' (data \<lparr>data = [], next_id = 0\<rparr>) = None"
    by (simp add: find_contact_def)
  have a: "add_contact [''Bob'', ''12''] \<lparr>data = [], next_id = 0\<rparr> =
     (Returned (ExcObj (ValueError
        ''Invalid phone number. The number must consist of 10 digits.'')),
      \<lparr>data = [(''Bob'', \<lparr>name = StrName ''Bob'', phones = [], birthday = NoBirthday\<rparr>)],
       next_id = 0\<rparr>)"
    using add_contact_not_atomic [of "''Bob''" "\<lparr>data = [], next_id = 0\<rparr>" "''12''"
        "ValueError ''Invalid phone number. The number must consist of 10 digits.''" 0] f p
    by simp
  have g: "find_contact ''Ann''
      (data \<lparr>data = [(''Bob'', \<lparr>name = StrName ''Bob'', phones = [], birthday = NoBirthday\<rparr>)],
             next_id = 0\<rparr>) = None"
    by (simp add: find_contact_def)
  have b: "add_contact [''Ann'', []]
       \<lparr>data = [(''Bob'', \<lparr>name = StrName ''Bob'', phones = [], birthday = NoBirthday\<rparr>)],
        next_id = 0\<rparr> =
     (Returned (Str (colored_output (''Contact '' @ ''Ann'' @ '' added to address book.''))),
      \<lparr>data = [(''Bob'', \<lparr>name = StrName ''Bob'', phones = [], birthday = NoBirthday\<rparr>),
               (''Ann'', \<lparr>name = StrName ''Ann'', phones = [], birthday = NoBirthday\<rparr>)],
       next_id = 0\<rparr>)"
    using add_contact_not_atomic [of "''Ann''"
        "\<lparr>data = [(''Bob'', \<lparr>name = StrName ''Bob'', phones = [], birthday = NoBirthday\<rparr>)],
          next_id = 0\<rparr>" "''12''"
        "ValueError ''Invalid phone number. The number must consist of 10 digits.''" 0] g
    by simp
  from a b show ?thesis by (rule conjI)
qed

text \<open>
  An instance at which the claim as first stated fails: the phone string fails the
  validation, the name is new, and no validation error is reported.
\<close>

theorem add_contact_empty_phone_no_error:
  "Phone_init 0 [] = Inl (ValueError ''Invalid phone number. The number must consist of 10 digits.'') \<and>
   add_contact [''Bob'', []] \<lparr>data = [], next_id = 0\<rparr> =
     (Returned (Str (colored_output ''Contact Bob added to address book.'')),
      \<lparr>data = [(''Bob'', \<lparr>name = StrName ''Bob'', phones = [], birthday = NoBirthday\<rparr>)],
       next_id = 0\<rparr>)"
  by code_simp

subsection \<open>Ordinals, the day after, and the weekend shift\<close>

text \<open>
  The date arithmetic of the library is done on ordinals. The day-by-day successor used
  for \<open>d + timedelta(days=n)\<close> agrees with it: it keeps dates valid and adds one to the
  ordinal, so a Saturday shifted by two days and a Sunday shifted by one are Mondays.
\<close>

lemma div_pred:
  fixes y k :: int
  assumes "0 < k"
  shows "y div k = (y - 1) div k + (if y mod k = 0 then 1 else 0)"
proof (cases "y mod k = 0")
  case True
  have "y - 1 = k * (y div k - 1) + (k - 1)"
    using True mult_div_mod_eq [of k y] by (simp add: algebra_simps)
  moreover have "0 \<le> k - 1" "k - 1 < k" using assms by simp_all
  ultimately have "(y - 1) div k = y div k - 1"
    by (rule int_div_pos_eq)
  with True show ?thesis by simp
next
  case False
  then have r: "0 < y mod k" using assms pos_mod_sign [of k y] by linarith
  have "y - 1 = k * (y div k) + (y mod k - 1)"
    using mult_div_mod_eq [of k y] by (simp add: algebra_simps)
  moreover have "0 \<le> y mod k - 1" "y mod k - 1 < k"
    using r pos_mod_bound [OF assms, of y] by linarith+
  ultimately have "(y - 1) div k = y div k"
    by (rule int_div_pos_eq)
  with False show ?thesis by simp
qed

lemma days_before_year_Suc:
  "days_before_year (y + 1) = days_before_year y + (if is_leap y then 366 else 365)"
proof -
  define la lb lc :: int where "la = (if y mod 4 = 0 then 1 else 0)"
    and "lb = (if y mod 100 = 0 then 1 else 0)" and "lc = (if y mod 400 = 0 then 1 else 0)"
  have a: "y div 4 = (y - 1) div 4 + la"
    unfolding la_def by (rule div_pred) simp
  have b: "y div 100 = (y - 1) div 100 + lb"
    unfolding lb_def by (rule div_pred) simp
  have c: "y div 400 = (y - 1) div 400 + lc"
    unfolding lc_def by (rule div_pred) simp
  have d1: "y mod 400 = 0 \<Longrightarrow> y mod 100 = 0"
    using dvd_trans [of 100 400 y] by (simp add: mod_eq_0_iff_dvd)
  have d2: "y mod 100 = 0 \<Longrightarrow> y mod 4 = 0"
    using dvd_trans [of 4 100 y] by (simp add: mod_eq_0_iff_dvd)
  have "days_before_year (y + 1) = y * 365 + y div 4 - y div 100 + y div 400"
    by (simp add: days_before_year_def)
  also have "\<dots> = days_before_year y + 365 + la - lb + lc"
    unfolding a b c days_before_year_def by (simp add: algebra_simps)
  finally have s: "days_before_year (y + 1) = days_before_year y + 365 + la - lb + lc" .
  have l: "la - lb + lc = (if is_leap y then 1 else 0)"
  proof (cases "y mod 4 = 0")
    case False
    have n100: "y mod 100 \<noteq> 0" by (rule contrapos_nn [OF False]) (rule d2)
    have n400: "y mod 400 \<noteq> 0" by (rule contrapos_nn [OF n100]) (rule d1)
    from False n100 n400 show ?thesis
      by (simp only: la_def lb_def lc_def is_leap_def if_False simp_thms)
  next
    case m4: True
    show ?thesis
    proof (cases "y mod 100 = 0")
      case False
      have n400: "y mod 400 \<noteq> 0" by (rule contrapos_nn [OF False]) (rule d1)
      from m4 False n400 show ?thesis
        by (simp add: la_def lb_def lc_def is_leap_def)
    next
      case m100: True
      show ?thesis
      proof (cases "y mod 400 = 0")
        case True
        with m4 m100 show ?thesis
          by (simp add: la_def lb_def lc_def is_leap_def)
      next
        case False
        with m4 m100 show ?thesis
          by (simp add: la_def lb_def lc_def is_leap_def)
      qed
    qed
  qed
  show ?thesis
  proof (cases "is_leap y")
    case True
    with l s show ?thesis by simp
  next
    case False
    with l s show ?thesis by simp
  qed
qed

lemma days_before_month_Suc:
  "1 \<le> m \<Longrightarrow> days_before_month y (m + 1) = days_before_month y m + days_in_month y m"
  unfolding days_before_month_def by (simp add: upto_rec2)

lemma days_before_month_1: "days_before_month y 1 = 0"
  by (simp add: days_before_month_def)

lemma days_before_month_12:
  "days_before_month y 12 = (if is_leap y then 335 else 334)"
  unfolding days_before_month_def
  by (simp add: upto.simps days_in_month_def)

lemma toordinal_next_day:
  assumes "valid_date d" "toordinal d < 3652059"
  shows "valid_date (next_day d) \<and> toordinal (next_day d) = toordinal d + 1"
proof -
  from assms(1) have v: "1 \<le> year d" "year d \<le> 9999" "1 \<le> month d" "month d \<le> 12"
    "1 \<le> day d" "day d \<le> days_in_month (year d) (month d)"
    by (simp_all add: valid_date_def valid_ymd_def)
  consider "day d < days_in_month (year d) (month d)"
    | "day d = days_in_month (year d) (month d)" "month d < 12"
    | "day d = days_in_month (year d) (month d)" "month d = 12"
    using v by linarith
  then show ?thesis
  proof cases
    case 1
    with v show ?thesis
      by (simp add: next_day_def valid_date_def valid_ymd_def toordinal_def)
  next
    case 2
    have "1 \<le> days_in_month (year d) (month d + 1)" by (simp add: days_in_month_def)
    with 2 v show ?thesis
      by (simp add: next_day_def valid_date_def valid_ymd_def toordinal_def
          days_before_month_Suc)
  next
    case 3
    then have dd: "day d = 31" by (simp add: days_in_month_def)
    have "year d \<noteq> 9999"
    proof
      assume "year d = 9999"
      with 3 dd have "toordinal d = 3652059"
        by (simp add: toordinal_def days_before_year_def days_before_month_12 is_leap_def)
      with assms(2) show False by simp
    qed
    with v have y: "year d + 1 \<le> 9999" by simp
    show ?thesis
      using 3 dd v y
      by (simp add: next_day_def valid_date_def valid_ymd_def toordinal_def
          days_before_year_Suc days_before_month_12 days_before_month_1 days_in_month_def)
  qed
qed

lemma toordinal_add_days:
  "valid_date d \<Longrightarrow> date_add_days d n = Inr d' \<Longrightarrow>
     valid_date d' \<and> toordinal d' = toordinal d + int n"
proof (induction n arbitrary: d')
  case 0
  then show ?case by (simp add: date_add_days_def split: if_splits)
next
  case (Suc n)
  from Suc.prems(2) have le: "toordinal d + int (Suc n) \<le> 3652059"
    and d': "d' = next_day ((next_day ^^ n) d)"
    by (auto simp: date_add_days_def split: if_splits)
  from le have "date_add_days d n = Inr ((next_day ^^ n) d)"
    by (simp add: date_add_days_def)
  from Suc.IH [OF Suc.prems(1) this]
  have ih: "valid_date ((next_day ^^ n) d)" "toordinal ((next_day ^^ n) d) = toordinal d + int n"
    by simp_all
  with le have "toordinal ((next_day ^^ n) d) < 3652059" by simp
  from toordinal_next_day [OF ih(1) this] ih(2) d' show ?case by simp
qed

lemma weekend_shift_is_monday:
  assumes "valid_date d"
  shows "weekday d = 5 \<Longrightarrow> date_add_days d 2 = Inr d' \<Longrightarrow> weekday d' = 0"
    and "weekday d = 6 \<Longrightarrow> date_add_days d 1 = Inr d' \<Longrightarrow> weekday d' = 0"
proof -
  assume w: "weekday d = 5" and a: "date_add_days d 2 = Inr d'"
  from toordinal_add_days [OF assms a] have "toordinal d' = toordinal d + 2" by simp
  with w show "weekday d' = 0" unfolding weekday_def by presburger
next
  assume w: "weekday d = 6" and a: "date_add_days d 1 = Inr d'"
  from toordinal_add_days [OF assms a] have "toordinal d' = toordinal d + 1" by simp
  with w show "weekday d' = 0" unfolding weekday_def by presburger
qed

end
